theory Spec2Isabelle
  imports Main "HOL-Library.Word"
begin

section \<open>The zstd backend of zram: drivers/block/zram/zcomp\_zstd.c\<close>

text \<open>
  The backend is a thin layer of C over three collaborators that are not part of the file:
  the kernel's allocators, the per-CPU machinery and the zstd codec. The embedding keeps
  the C functions as state transformers over a record \<open>kstate\<close>. What the collaborators
  decide (whether an allocation succeeds, what the codec computes) enters as data: an
  oracle for the allocators, a record of functions for the codec. Everything the file
  asks of the allocators is written to a trace, so that "freed", "leaked" and "freed
  twice" are statements about the calls the C code makes.
\<close>

subsection \<open>Pointers, errno values, allocation flags\<close>

type_synonym addr = nat
type_synonym byte = "8 word"

abbreviation (input) NULL :: addr where
  "NULL \<equiv> 0"

text \<open>The two errno values of the file, with their values in errno-base.h.\<close>

abbreviation (input) ENOMEM :: int where
  "ENOMEM \<equiv> 12"

abbreviation (input) EINVAL :: int where
  "EINVAL \<equiv> 22"

text \<open>\<^verbatim>\<open>#define ZRAM_ZSTD_LEVEL 1\<close>\<close>

abbreviation (input) ZRAM_ZSTD_LEVEL :: int where
  "ZRAM_ZSTD_LEVEL \<equiv> 1"

text \<open>
  The gfp flags the file names. The C spelling of the last four starts with two
  underscores (\<^verbatim>\<open>__GFP_NORETRY\<close>, \<^verbatim>\<open>__GFP_NOWARN\<close>, \<^verbatim>\<open>__GFP_ZERO\<close>,
  \<^verbatim>\<open>__GFP_HIGHMEM\<close>). A flag word is the list of the flags or-ed together.
\<close>

datatype gfp = GFP_KERNEL | GFP_NOIO | GFP_NORETRY | GFP_NOWARN | GFP_ZERO | GFP_HIGHMEM

datatype allocator = KMALLOC | VMALLOC | ALLOC_PERCPU

datatype releaser = KFREE | VFREE | KVFREE | FREE_PERCPU

text \<open>
  One event per call into the kernel: an allocation attempt with its size, flags and the
  pointer it returned (\<open>NULL\<close> when it failed), a release with the pointer it was given,
  a \<^verbatim>\<open>pr_err\<close> line with its format string and its \<^verbatim>\<open>%d\<close> argument.
\<close>

datatype event =
    Alloc allocator nat "gfp list" addr
  | Release releaser addr
  | Printk string int

subsection \<open>The structs of the file and the state\<close>

text \<open>\<^verbatim>\<open>struct percpu_zstd_dctx { void *dwksp; ZSTD_DCtx *dctx; };\<close>\<close>

record percpu_zstd_dctx =
  dwksp :: addr
  dctx :: addr

text \<open>\<^verbatim>\<open>struct zstd_ctx { void *cwksp; ZSTD_CCtx *cctx; };\<close>\<close>

record zstd_ctx =
  cwksp :: addr
  cctx :: addr

text \<open>
  The configuration the file is compiled and booted with: the page size, the CPU numbers
  of \<^verbatim>\<open>cpu_possible_mask\<close> in the order \<^verbatim>\<open>for_each_possible_cpu\<close> visits them, and the
  size of a pointer (both structs are two pointers). Sizes and lengths (\<^verbatim>\<open>size_t\<close>) are
  natural numbers: the file's only arithmetic on them is \<^verbatim>\<open>2 * PAGE_SIZE\<close>, which no
  page size brings near the range of \<^verbatim>\<open>size_t\<close>.
\<close>

record kernel =
  PAGE_SIZE :: nat
  possible_cpus :: "nat list"
  sizeof_ptr :: nat

text \<open>
  The state: the file's one global (\<^verbatim>\<open>static void* percpu_dctx = NULL;\<close>), the contents
  of memory at the two struct types (total: memory that was never written, or was
  released, still reads as whatever it holds), the allocation frontier, the oracle that
  decides the \<open>n\<close>-th allocation attempt, and the trace.
  A per-CPU pointer is a base address; \<^verbatim>\<open>per_cpu_ptr(base, cpu)\<close> is the pair of both.
\<close>

record kstate =
  percpu_dctx :: addr
  ctx_mem :: "addr \<Rightarrow> zstd_ctx"
  percpu_mem :: "addr \<Rightarrow> nat \<Rightarrow> percpu_zstd_dctx"
  brk :: addr
  alloc_ok :: "nat \<Rightarrow> bool"
  nalloc :: nat
  trace :: "event list"

subsection \<open>The codec\<close>

text \<open>
  The parameter structs, as linux/zstd.h declares them; the file only copies them and
  reads \<^verbatim>\<open>params.cParams\<close>.
\<close>

record ZSTD_compressionParameters =
  windowLog :: nat
  chainLog :: nat
  hashLog :: nat
  searchLog :: nat
  searchLength :: nat
  targetLength :: nat
  strategy :: nat

record ZSTD_frameParameters =
  contentSizeFlag :: nat
  checksumFlag :: nat
  noDictIDFlag :: nat

record ZSTD_parameters =
  cParams :: ZSTD_compressionParameters
  fParams :: ZSTD_frameParameters

text \<open>
  The codec itself (lib/zstd) is not part of the file, which only calls it. Its functions
  are therefore parameters of the model: one field of this record for each function the
  file calls, with the arguments of its C prototype. A buffer argument is the bytes it
  points to, and the two codec calls return the \<^verbatim>\<open>size_t\<close> result together with the
  destination buffer as they leave it. An engine handle is a pointer, \<open>NULL\<close> when the
  constructor refused the workspace. \<^verbatim>\<open>ZSTD_isError\<close> returns \<^verbatim>\<open>unsigned int\<close>.
\<close>

record zstd_lib =
  ZSTD_getParams :: "int \<Rightarrow> nat \<Rightarrow> nat \<Rightarrow> ZSTD_parameters"
  ZSTD_CCtxWorkspaceBound :: "ZSTD_compressionParameters \<Rightarrow> nat"
  ZSTD_DCtxWorkspaceBound :: nat
  ZSTD_initCCtx :: "addr \<Rightarrow> nat \<Rightarrow> addr"
  ZSTD_initDCtx :: "addr \<Rightarrow> nat \<Rightarrow> addr"
  ZSTD_compressCCtx ::
    "addr \<Rightarrow> byte list \<Rightarrow> nat \<Rightarrow> byte list \<Rightarrow> nat \<Rightarrow> ZSTD_parameters \<Rightarrow> nat \<times> byte list"
  ZSTD_decompressDCtx ::
    "addr \<Rightarrow> byte list \<Rightarrow> nat \<Rightarrow> byte list \<Rightarrow> nat \<Rightarrow> nat \<times> byte list"
  ZSTD_isError :: "nat \<Rightarrow> 32 word"
  ZSTD_getErrorCode :: "nat \<Rightarrow> int"

subsection \<open>The kernel's allocators, as the file uses them\<close>

text \<open>
  The allocators are kernel code outside the file. Whether an attempt succeeds is not
  for the file to decide, so the model asks the oracle. An attempt that succeeds returns
  the next address above the frontier, which is never \<open>NULL\<close> and was never returned
  before; one that fails returns \<open>NULL\<close>. Either way the attempt is written to the
  trace, with the flags it was given.
\<close>

definition alloc :: "allocator \<Rightarrow> nat \<Rightarrow> gfp list \<Rightarrow> kstate \<Rightarrow> addr \<times> kstate" where
  "alloc fn sz flags s =
     (let a = (if alloc_ok s (nalloc s) then Suc (brk s) else NULL)
      in (a, s\<lparr>brk := (if a = NULL then brk s else a),
                nalloc := Suc (nalloc s),
                trace := trace s @ [Alloc fn sz flags a]\<rparr>))"

definition kmalloc :: "nat \<Rightarrow> gfp list \<Rightarrow> kstate \<Rightarrow> addr \<times> kstate" where
  "kmalloc sz flags s = alloc KMALLOC sz flags s"

text \<open>\<^verbatim>\<open>kzalloc(size, flags)\<close> is \<^verbatim>\<open>kmalloc(size, flags | __GFP_ZERO)\<close>.\<close>

definition kzalloc :: "nat \<Rightarrow> gfp list \<Rightarrow> kstate \<Rightarrow> addr \<times> kstate" where
  "kzalloc sz flags s = kmalloc sz (flags @ [GFP_ZERO]) s"

text \<open>\<^verbatim>\<open>__vmalloc(size, gfp_mask, PAGE_KERNEL)\<close>\<close>

definition vmalloc_gfp :: "nat \<Rightarrow> gfp list \<Rightarrow> kstate \<Rightarrow> addr \<times> kstate" where
  "vmalloc_gfp sz flags s = alloc VMALLOC sz flags s"

text \<open>
  \<^verbatim>\<open>alloc_percpu(struct percpu_zstd_dctx)\<close>: one copy of the struct for every CPU, all of
  them zero-filled.
\<close>

definition alloc_percpu :: "nat \<Rightarrow> kstate \<Rightarrow> addr \<times> kstate" where
  "alloc_percpu sz s =
     (let (a, s1) = alloc ALLOC_PERCPU sz [] s
      in if a = NULL then (a, s1)
         else (a, s1\<lparr>percpu_mem :=
                 (percpu_mem s1)(a := (\<lambda>cpu. \<lparr>dwksp = NULL, dctx = NULL\<rparr>))\<rparr>))"

text \<open>
  A release is the call itself, written to the trace with the pointer it was given
  (\<open>NULL\<close> included: all four functions return at once on \<open>NULL\<close>).
\<close>

definition release :: "releaser \<Rightarrow> addr \<Rightarrow> kstate \<Rightarrow> kstate" where
  "release fn a s = s\<lparr>trace := trace s @ [Release fn a]\<rparr>"

definition kfree :: "addr \<Rightarrow> kstate \<Rightarrow> kstate" where
  "kfree a s = release KFREE a s"

definition vfree :: "addr \<Rightarrow> kstate \<Rightarrow> kstate" where
  "vfree a s = release VFREE a s"

definition kvfree :: "addr \<Rightarrow> kstate \<Rightarrow> kstate" where
  "kvfree a s = release KVFREE a s"

definition free_percpu :: "addr \<Rightarrow> kstate \<Rightarrow> kstate" where
  "free_percpu a s = release FREE_PERCPU a s"

text \<open>A \<^verbatim>\<open>pr_err\<close> line is recorded by its format string, without the trailing newline.\<close>

definition pr_err :: "string \<Rightarrow> int \<Rightarrow> kstate \<Rightarrow> kstate" where
  "pr_err fmt arg s = s\<lparr>trace := trace s @ [Printk fmt arg]\<rparr>"

subsection \<open>The functions of the file\<close>

definition zstd_params :: "zstd_lib \<Rightarrow> kernel \<Rightarrow> ZSTD_parameters" where
  "zstd_params z k = ZSTD_getParams z ZRAM_ZSTD_LEVEL (PAGE_SIZE k) 0"

definition alloc_mem :: "nat \<Rightarrow> kstate \<Rightarrow> addr \<times> kstate" where
  "alloc_mem sz s =
     (let (ret, s1) = kzalloc sz [GFP_NOIO, GFP_NORETRY, GFP_NOWARN] s
      in if ret = NULL
         then vmalloc_gfp sz [GFP_NOIO, GFP_NORETRY, GFP_NOWARN, GFP_ZERO, GFP_HIGHMEM] s1
         else (ret, s1))"

text \<open>
  \<open>zstd_comp_init\<close>: the two stores to \<^verbatim>\<open>*ctx\<close> happen where the C makes them, and
  \<^verbatim>\<open>out_free\<close> releases \<^verbatim>\<open>ctx->cwksp\<close> as it reads it back from memory.
\<close>

definition zstd_comp_init :: "zstd_lib \<Rightarrow> kernel \<Rightarrow> addr \<Rightarrow> kstate \<Rightarrow> int \<times> kstate" where
  "zstd_comp_init z k ctx s =
     (let params = zstd_params z k;
          wksp_size = ZSTD_CCtxWorkspaceBound z (cParams params);
          (w, s1) = alloc_mem wksp_size s;
          s2 = s1\<lparr>ctx_mem := (ctx_mem s1)(ctx := (ctx_mem s1 ctx)\<lparr>cwksp := w\<rparr>)\<rparr>
      in if cwksp (ctx_mem s2 ctx) = NULL then (- ENOMEM, s2)
         else
           (let h = ZSTD_initCCtx z (cwksp (ctx_mem s2 ctx)) wksp_size;
                s3 = s2\<lparr>ctx_mem := (ctx_mem s2)(ctx := (ctx_mem s2 ctx)\<lparr>cctx := h\<rparr>)\<rparr>
            in if cctx (ctx_mem s3 ctx) = NULL
               then (- EINVAL, vfree (cwksp (ctx_mem s3 ctx)) s3)
               else (0, s3)))"

text \<open>\<open>zstd_decomp_init\<close>, on the slot \<^verbatim>\<open>per_cpu_ptr(base, cpu)\<close>.\<close>

definition zstd_decomp_init :: "zstd_lib \<Rightarrow> addr \<times> nat \<Rightarrow> kstate \<Rightarrow> int \<times> kstate" where
  "zstd_decomp_init z p s =
     (let base = fst p; cpu = snd p;
          wksp_size = ZSTD_DCtxWorkspaceBound z;
          (w, s1) = alloc_mem wksp_size s;
          s2 = s1\<lparr>percpu_mem := (percpu_mem s1)
                 (base := (percpu_mem s1 base)(cpu := (percpu_mem s1 base cpu)\<lparr>dwksp := w\<rparr>))\<rparr>
      in if dwksp (percpu_mem s2 base cpu) = NULL then (- ENOMEM, s2)
         else
           (let h = ZSTD_initDCtx z (dwksp (percpu_mem s2 base cpu)) wksp_size;
                s3 = s2\<lparr>percpu_mem := (percpu_mem s2)
                       (base := (percpu_mem s2 base)(cpu := (percpu_mem s2 base cpu)\<lparr>dctx := h\<rparr>))\<rparr>
            in if dctx (percpu_mem s3 base cpu) = NULL
               then (- EINVAL, vfree (dwksp (percpu_mem s3 base cpu)) s3)
               else (0, s3)))"

text \<open>
  The first loop of \<open>zcomp_zstd_create_percpu\<close>: it stops at the first CPU whose
  initialisation fails (\<^verbatim>\<open>goto failure\<close>) and returns that error, or 0 after the last CPU.
\<close>

fun percpu_init_loop :: "zstd_lib \<Rightarrow> nat list \<Rightarrow> kstate \<Rightarrow> int \<times> kstate" where
  "percpu_init_loop z [] s = (0, s)"
| "percpu_init_loop z (cpu # cpus) s =
     (let (ret, s1) = zstd_decomp_init z (percpu_dctx s, cpu) s
      in if ret \<noteq> 0 then (ret, s1) else percpu_init_loop z cpus s1)"

text \<open>
  The loop under \<^verbatim>\<open>failure:\<close>, which is also the loop of \<open>zcomp_zstd_destroy\<close>:
  \<^verbatim>\<open>vfree(per_cpu_ptr(percpu_dctx, cpu)->dwksp)\<close> for every possible CPU.
\<close>

fun percpu_vfree_loop :: "nat list \<Rightarrow> kstate \<Rightarrow> kstate" where
  "percpu_vfree_loop [] s = s"
| "percpu_vfree_loop (cpu # cpus) s =
     percpu_vfree_loop cpus (vfree (dwksp (percpu_mem s (percpu_dctx s) cpu)) s)"

text \<open>The \<^verbatim>\<open>ctx\<close> argument of \<open>zcomp_zstd_create_percpu\<close> is not used by its body.\<close>

definition zcomp_zstd_create_percpu :: "zstd_lib \<Rightarrow> kernel \<Rightarrow> addr \<Rightarrow> kstate \<Rightarrow> int \<times> kstate" where
  "zcomp_zstd_create_percpu z k ctx s =
     (let (p, s1) = alloc_percpu (2 * sizeof_ptr k) s;
          s2 = s1\<lparr>percpu_dctx := p\<rparr>
      in if percpu_dctx s2 = NULL then (- ENOMEM, s2)
         else
           (let (ret, s3) = percpu_init_loop z (possible_cpus k) s2
            in if ret \<noteq> 0 then (ret, percpu_vfree_loop (possible_cpus k) s3)
               else (0, s3)))"

text \<open>
  \<open>zcomp_zstd_create\<close> returns the instance pointer, \<open>NULL\<close> on failure. Both
  \<^verbatim>\<open>goto failed\<close> end in \<^verbatim>\<open>kvfree(ctx->cwksp); return NULL;\<close>.
\<close>

definition zcomp_zstd_create :: "zstd_lib \<Rightarrow> kernel \<Rightarrow> kstate \<Rightarrow> addr \<times> kstate" where
  "zcomp_zstd_create z k s =
     (let (ctx, s1) = kmalloc (2 * sizeof_ptr k) [GFP_KERNEL] s
      in if ctx = NULL then (NULL, s1)
         else
           (let (ret, s2) = zstd_comp_init z k ctx s1
            in if ret \<noteq> 0 then (NULL, kvfree (cwksp (ctx_mem s2 ctx)) s2)
               else
                 (let (ret, s3) = zcomp_zstd_create_percpu z k ctx s2
                  in if ret \<noteq> 0 then (NULL, kvfree (cwksp (ctx_mem s3 ctx)) s3)
                     else (ctx, s3))))"

definition zcomp_zstd_destroy :: "kernel \<Rightarrow> addr \<Rightarrow> kstate \<Rightarrow> kstate" where
  "zcomp_zstd_destroy k private s =
     (let ctx = private;
          s1 = (if ctx \<noteq> NULL then kvfree (cwksp (ctx_mem s ctx)) s else s);
          s2 = (if percpu_dctx s1 \<noteq> NULL
                then (let s' = percpu_vfree_loop (possible_cpus k) s1;
                          s'' = free_percpu (percpu_dctx s') s'
                      in s''\<lparr>percpu_dctx := NULL\<rparr>)
                else s1)
      in kfree ctx s2)"

text \<open>
  \<open>zcomp_zstd_compress\<close>: \<open>src\<close> and \<open>dst\<close> are the bytes of the caller's buffers and
  \<open>dst_len\<close> is the value of \<^verbatim>\<open>*dst_len\<close> on entry. The result is the \<^verbatim>\<open>int\<close> returned,
  the destination buffer and \<^verbatim>\<open>*dst_len\<close> on exit, and the state. The \<^verbatim>\<open>unsigned\<close> result of
  \<^verbatim>\<open>ZSTD_isError\<close> is returned as an \<^verbatim>\<open>int\<close>.
\<close>

definition zcomp_zstd_compress ::
  "zstd_lib \<Rightarrow> kernel \<Rightarrow> byte list \<Rightarrow> byte list \<Rightarrow> nat \<Rightarrow> addr \<Rightarrow> kstate
     \<Rightarrow> int \<times> byte list \<times> nat \<times> kstate" where
  "zcomp_zstd_compress z k src dst dst_len private s =
     (let ctx = private;
          params = zstd_params z k;
          (len, dst') = ZSTD_compressCCtx z (cctx (ctx_mem s ctx)) dst (2 * PAGE_SIZE k)
                          src (PAGE_SIZE k) params
      in if ZSTD_isError z len \<noteq> 0
         then (sint (ZSTD_isError z len), dst', dst_len,
               pr_err ''[zram-zstd] Compress error %d'' (ZSTD_getErrorCode z len) s)
         else (0, dst', len, s))"

text \<open>
  \<open>zcomp_zstd_decompress\<close>: \<open>cpu\<close> is the CPU the call runs on
  (\<^verbatim>\<open>this_cpu_ptr(percpu_dctx)\<close>), \<open>dst\<close> the bytes of the caller's page on entry.
\<close>

definition zcomp_zstd_decompress ::
  "zstd_lib \<Rightarrow> kernel \<Rightarrow> nat \<Rightarrow> byte list \<Rightarrow> nat \<Rightarrow> byte list \<Rightarrow> kstate
     \<Rightarrow> int \<times> byte list \<times> kstate" where
  "zcomp_zstd_decompress z k cpu src src_len dst s =
     (let (ret, dst') = ZSTD_decompressDCtx z (dctx (percpu_mem s (percpu_dctx s) cpu)) dst
                          (PAGE_SIZE k) src src_len
      in if ZSTD_isError z ret \<noteq> 0
         then (- EINVAL, dst',
               pr_err ''[zram-zstd] Decompress error %d'' (ZSTD_getErrorCode z ret) s)
         else (0, dst', s))"

subsection \<open>Reading the trace\<close>

text \<open>The events a run added: the trace of the final state without that of the initial one.\<close>

definition events_since :: "kstate \<Rightarrow> kstate \<Rightarrow> event list" where
  "events_since s s' = drop (length (trace s)) (trace s')"

text \<open>The pointers handed to \<^verbatim>\<open>kfree\<close>, \<^verbatim>\<open>vfree\<close>, \<^verbatim>\<open>kvfree\<close> or \<^verbatim>\<open>free_percpu\<close>, in order.\<close>

fun rels :: "event list \<Rightarrow> addr list" where
  "rels [] = []"
| "rels (Release fn a # es) = a # rels es"
| "rels (Alloc fn sz flags a # es) = rels es"
| "rels (Printk fmt arg # es) = rels es"

text \<open>How many times a pointer was released.\<close>

definition release_count :: "addr \<Rightarrow> event list \<Rightarrow> nat" where
  "release_count a es = count_list (rels es) a"


text \<open>The sizes asked of the allocators, one per attempt, in order.\<close>

fun alloc_sizes :: "event list \<Rightarrow> nat list" where
  "alloc_sizes [] = []"
| "alloc_sizes (Alloc fn sz flags a # es) = sz # alloc_sizes es"
| "alloc_sizes (Release fn a # es) = alloc_sizes es"
| "alloc_sizes (Printk fmt arg # es) = alloc_sizes es"

text \<open>
  The sizes of the workspaces a run obtained: \<open>alloc_mem\<close> is the only caller that
  passes \<^verbatim>\<open>GFP_NOIO\<close>, and an attempt that returned \<open>NULL\<close> obtained nothing.
\<close>

fun wksp_sizes :: "event list \<Rightarrow> nat list" where
  "wksp_sizes [] = []"
| "wksp_sizes (Alloc fn sz flags a # es) =
     (if GFP_NOIO \<in> set flags \<and> a \<noteq> NULL then sz # wksp_sizes es else wksp_sizes es)"
| "wksp_sizes (Release fn a # es) = wksp_sizes es"
| "wksp_sizes (Printk fmt arg # es) = wksp_sizes es"

text \<open>Every pointer released in \<open>es\<close> is \<open>NULL\<close> or lies above \<open>b\<close>.\<close>

definition rel_above :: "addr \<Rightarrow> event list \<Rightarrow> bool" where
  "rel_above b es \<longleftrightarrow> (\<forall>a \<in> set (rels es). a = NULL \<or> b < a)"

text \<open>Every slot's workspace pointer is \<open>NULL\<close> or lies above \<open>b\<close>.\<close>

definition slots_above :: "addr \<Rightarrow> kstate \<Rightarrow> bool" where
  "slots_above b s \<longleftrightarrow>
     (\<forall>c. dwksp (percpu_mem s (percpu_dctx s) c) = NULL
          \<or> b < dwksp (percpu_mem s (percpu_dctx s) c))"

subsection \<open>What the spec asks of the codec\<close>

text \<open>
  Modelled from the spec: the codec's compression routine is missing from the sources.
  The spec gives the backend's compress the output "compressed length \<le> 2\<times>page, bytes
  written to caller buffer", for an "output buffer [that] is always capacity two pages"
  handed to a codec "returning either a length or an error code": a result that is not
  an error is a length within the capacity the codec was given.
\<close>

definition zstd_respects_capacity :: "zstd_lib \<Rightarrow> bool" where
  "zstd_respects_capacity z \<longleftrightarrow>
     (\<forall>h dst cap src n p.
        ZSTD_isError z (fst (ZSTD_compressCCtx z h dst cap src n p)) = 0
        \<longrightarrow> fst (ZSTD_compressCCtx z h dst cap src n p) \<le> cap)"

text \<open>
  Modelled from the spec: the codec's compression and decompression routines are missing
  from the sources. The spec's round trip, "decompress(compress(x)) == x", read as a
  property of the codec: with engine handles that were constructed (not \<open>NULL\<close>), what
  compression of the first \<open>n\<close> bytes of \<open>src\<close> left in its destination buffer, with the
  length it returned, decompresses without error to exactly those \<open>n\<close> bytes, into any
  buffer of capacity at least \<open>n\<close>.
\<close>

definition zstd_lossless :: "zstd_lib \<Rightarrow> bool" where
  "zstd_lossless z \<longleftrightarrow>
     (\<forall>hc hd dst cap src n p dst2 cap2.
        hc \<noteq> NULL \<and> hd \<noteq> NULL \<and> n \<le> length src \<and> n \<le> cap2
        \<and> ZSTD_isError z (fst (ZSTD_compressCCtx z hc dst cap src n p)) = 0
        \<longrightarrow> (let (len, out) = ZSTD_compressCCtx z hc dst cap src n p;
                 (r, out2) = ZSTD_decompressDCtx z hd dst2 cap2 out len
             in ZSTD_isError z r = 0 \<and> r = n \<and> take n out2 = take n src))"

subsection \<open>A concrete configuration, to run the model on\<close>

text \<open>
  The state at module load: the global is \<open>NULL\<close>, nothing was allocated, memory reads
  as zero, and every allocation will succeed.
\<close>

definition boot :: kstate where
  "boot = \<lparr>percpu_dctx = NULL,
           ctx_mem = (\<lambda>_. \<lparr>cwksp = NULL, cctx = NULL\<rparr>),
           percpu_mem = (\<lambda>_ _. \<lparr>dwksp = NULL, dctx = NULL\<rparr>),
           brk = 0, alloc_ok = (\<lambda>_. True), nalloc = 0, trace = []\<rparr>"

text \<open>A 32-bit machine with four possible CPUs and, to keep pages short, 8-byte pages.\<close>

definition quad :: kernel where
  "quad = \<lparr>PAGE_SIZE = 8, possible_cpus = [0, 1, 2, 3], sizeof_ptr = 4\<rparr>"

text \<open>
  A codec that stores: the frame is one header byte followed by the input. It reports
  errors the way zstd does, as the negated code in a 32-bit \<^verbatim>\<open>size_t\<close>, with codes below
  \<open>stored_maxCode\<close>; 12 stands for "destination too small", 13 for "wrong source size".
  The compression workspace is larger than the decompression workspace, and a handle is
  the address of its workspace.
\<close>

definition stored_maxCode :: nat where
  "stored_maxCode = 22"

definition stored_ERROR :: "nat \<Rightarrow> nat" where
  "stored_ERROR code = 2 ^ 32 - code"

definition stored_isError :: "nat \<Rightarrow> 32 word" where
  "stored_isError r = (if r > stored_ERROR stored_maxCode then 1 else 0)"

definition stored_getErrorCode :: "nat \<Rightarrow> int" where
  "stored_getErrorCode r = (if stored_isError r = 0 then 0 else int (2 ^ 32 - r))"

definition stored_compress ::
  "addr \<Rightarrow> byte list \<Rightarrow> nat \<Rightarrow> byte list \<Rightarrow> nat \<Rightarrow> ZSTD_parameters \<Rightarrow> nat \<times> byte list" where
  "stored_compress h dst cap src n p =
     (if cap < Suc n then (stored_ERROR 12, dst)
      else (Suc n, (1 # take n src) @ drop (Suc n) dst))"

definition stored_decompress ::
  "addr \<Rightarrow> byte list \<Rightarrow> nat \<Rightarrow> byte list \<Rightarrow> nat \<Rightarrow> nat \<times> byte list" where
  "stored_decompress h dst cap src n =
     (case take n src of
        [] \<Rightarrow> (stored_ERROR 13, dst)
      | hdr # body \<Rightarrow>
          if cap < length body then (stored_ERROR 12, dst)
          else (length body, body @ drop (length body) dst))"

definition stored_zstd :: zstd_lib where
  "stored_zstd =
     \<lparr>ZSTD_getParams = (\<lambda>level srcSize dictSize.
         \<lparr>cParams = \<lparr>windowLog = 10, chainLog = 6, hashLog = 6, searchLog = 1,
                     searchLength = 4, targetLength = 0, strategy = 0\<rparr>,
          fParams = \<lparr>contentSizeFlag = 1, checksumFlag = 0, noDictIDFlag = 0\<rparr>\<rparr>),
      ZSTD_CCtxWorkspaceBound = (\<lambda>cp. 2 ^ windowLog cp + 2 ^ hashLog cp),
      ZSTD_DCtxWorkspaceBound = 256,
      ZSTD_initCCtx = (\<lambda>w sz. if sz < 1088 then NULL else w),
      ZSTD_initDCtx = (\<lambda>w sz. if sz < 256 then NULL else w),
      ZSTD_compressCCtx = stored_compress,
      ZSTD_decompressDCtx = stored_decompress,
      ZSTD_isError = stored_isError,
      ZSTD_getErrorCode = stored_getErrorCode\<rparr>"

text \<open>The same codec with an engine constructor that rejects every workspace.\<close>

definition stored_zstd_no_cctx :: zstd_lib where
  "stored_zstd_no_cctx = stored_zstd\<lparr>ZSTD_initCCtx := (\<lambda>w sz. NULL)\<rparr>"

definition stored_zstd_no_dctx :: zstd_lib where
  "stored_zstd_no_dctx = stored_zstd\<lparr>ZSTD_initDCtx := (\<lambda>w sz. NULL)\<rparr>"

text \<open>The same codec with a compression that always reports "destination too small".\<close>

definition stored_zstd_failing :: zstd_lib where
  "stored_zstd_failing =
     stored_zstd\<lparr>ZSTD_compressCCtx := (\<lambda>h dst cap src n p. (stored_ERROR 12, dst))\<rparr>"

text \<open>The state after a successful \<open>zcomp_zstd_create\<close> at boot, with the storing codec.\<close>

definition active :: kstate where
  "active = snd (zcomp_zstd_create stored_zstd quad boot)"

section \<open>Properties\<close>

subsection \<open>Traces, and what each function does to the state\<close>

lemma rels_append [simp]: "rels (xs @ ys) = rels xs @ rels ys"
  by (induction xs rule: rels.induct) simp_all

lemma alloc_sizes_append [simp]: "alloc_sizes (xs @ ys) = alloc_sizes xs @ alloc_sizes ys"
  by (induction xs rule: alloc_sizes.induct) simp_all

lemma wksp_sizes_append [simp]: "wksp_sizes (xs @ ys) = wksp_sizes xs @ wksp_sizes ys"
  by (induction xs rule: wksp_sizes.induct) simp_all

lemma rel_above_append [simp]: "rel_above b (xs @ ys) \<longleftrightarrow> rel_above b xs \<and> rel_above b ys"
  by (auto simp: rel_above_def)

lemma rel_above_mono: "rel_above b es \<Longrightarrow> c \<le> b \<Longrightarrow> rel_above c es"
  by (fastforce simp: rel_above_def)

lemma alloc_mem_eff:
  assumes "alloc_mem sz s = (r, s')"
  shows "\<exists>es. trace s' = trace s @ es \<and> rels es = [] \<and> set (alloc_sizes es) \<subseteq> {sz}"
    and "ctx_mem s' = ctx_mem s" and "percpu_mem s' = percpu_mem s"
    and "percpu_dctx s' = percpu_dctx s" and "alloc_ok s' = alloc_ok s"
    and "brk s \<le> brk s'" and "r = NULL \<or> (brk s < r \<and> r \<le> brk s')"
  using assms
  by (auto simp: alloc_mem_def kzalloc_def kmalloc_def vmalloc_gfp_def alloc_def Let_def
      split: if_splits)

lemma zstd_comp_init_eff:
  assumes "zstd_comp_init z k ctx s = (r, s')"
  shows "\<exists>es. trace s' = trace s @ es \<and> rel_above (brk s) es"
    and "percpu_mem s' = percpu_mem s" and "percpu_dctx s' = percpu_dctx s"
    and "brk s \<le> brk s'"
    and "cwksp (ctx_mem s' ctx) = NULL \<or> brk s < cwksp (ctx_mem s' ctx)"
    and "r = 0 \<Longrightarrow> cctx (ctx_mem s' ctx) \<noteq> NULL"
proof -
  obtain w s1 where a: "alloc_mem (ZSTD_CCtxWorkspaceBound z (cParams (zstd_params z k))) s = (w, s1)"
    by fastforce
  note e = alloc_mem_eff [OF a]
  from e(1) obtain es where es: "trace s1 = trace s @ es" "rels es = []" by blast
  show "\<exists>es. trace s' = trace s @ es \<and> rel_above (brk s) es"
    using assms a es e(7)
    by (auto simp: zstd_comp_init_def Let_def vfree_def release_def rel_above_def
        split: if_splits)
  show "percpu_mem s' = percpu_mem s" "percpu_dctx s' = percpu_dctx s" "brk s \<le> brk s'"
    "cwksp (ctx_mem s' ctx) = NULL \<or> brk s < cwksp (ctx_mem s' ctx)"
    "r = 0 \<Longrightarrow> cctx (ctx_mem s' ctx) \<noteq> NULL"
    using assms a e(3,4,6,7)
    by (auto simp: zstd_comp_init_def Let_def vfree_def release_def split: if_splits)
qed

lemma zstd_decomp_init_eff:
  assumes "zstd_decomp_init z (base, cpu) s = (r, s')"
  shows "\<exists>es. trace s' = trace s @ es \<and> rel_above (brk s) es"
    and "ctx_mem s' = ctx_mem s" and "percpu_dctx s' = percpu_dctx s"
    and "brk s \<le> brk s'"
    and "dwksp (percpu_mem s' base cpu) = NULL \<or> brk s < dwksp (percpu_mem s' base cpu)"
    and "\<And>b c. (b, c) \<noteq> (base, cpu) \<Longrightarrow> percpu_mem s' b c = percpu_mem s b c"
    and "r = 0 \<Longrightarrow> dctx (percpu_mem s' base cpu) \<noteq> NULL"
proof -
  obtain w s1 where a: "alloc_mem (ZSTD_DCtxWorkspaceBound z) s = (w, s1)"
    by fastforce
  note e = alloc_mem_eff [OF a]
  from e(1) obtain es where es: "trace s1 = trace s @ es" "rels es = []" by blast
  show "\<exists>es. trace s' = trace s @ es \<and> rel_above (brk s) es"
    using assms a es e(7)
    by (auto simp: zstd_decomp_init_def Let_def vfree_def release_def rel_above_def
        split: if_splits)
  show "ctx_mem s' = ctx_mem s" "percpu_dctx s' = percpu_dctx s" "brk s \<le> brk s'"
    "dwksp (percpu_mem s' base cpu) = NULL \<or> brk s < dwksp (percpu_mem s' base cpu)"
    "r = 0 \<Longrightarrow> dctx (percpu_mem s' base cpu) \<noteq> NULL"
    using assms a e(2,4,6,7)
    by (auto simp: zstd_decomp_init_def Let_def vfree_def release_def split: if_splits)
  show "\<And>b c. (b, c) \<noteq> (base, cpu) \<Longrightarrow> percpu_mem s' b c = percpu_mem s b c"
    using assms a e(3)
    by (auto simp: zstd_decomp_init_def Let_def vfree_def release_def split: if_splits)
qed

lemma percpu_init_loop_eff:
  assumes "percpu_init_loop z cpus s = (r, s')"
  shows "(\<exists>es. trace s' = trace s @ es \<and> rel_above (brk s) es)
       \<and> ctx_mem s' = ctx_mem s \<and> percpu_dctx s' = percpu_dctx s \<and> brk s \<le> brk s'
       \<and> (\<forall>b \<le> brk s. slots_above b s \<longrightarrow> slots_above b s')
       \<and> (r = 0 \<longrightarrow> (\<forall>c. c \<in> set cpus \<or> dctx (percpu_mem s (percpu_dctx s) c) \<noteq> NULL
                         \<longrightarrow> dctx (percpu_mem s' (percpu_dctx s') c) \<noteq> NULL))"
  using assms
proof (induction cpus arbitrary: s)
  case Nil
  then show ?case by (simp add: rel_above_def)
next
  case (Cons cpu cpus)
  obtain r1 s1 where d: "zstd_decomp_init z (percpu_dctx s, cpu) s = (r1, s1)"
    by fastforce
  note e = zstd_decomp_init_eff [OF d]
  from e(1) obtain es1 where es1: "trace s1 = trace s @ es1" "rel_above (brk s) es1" by blast
  have keep: "slots_above b s1" if "b \<le> brk s" "slots_above b s" for b
    unfolding slots_above_def
  proof
    fix c
    show "dwksp (percpu_mem s1 (percpu_dctx s1) c) = NULL
          \<or> b < dwksp (percpu_mem s1 (percpu_dctx s1) c)"
    proof (cases "c = cpu")
      case True
      then show ?thesis using e(3,5) that(1) by auto
    next
      case False
      then have "percpu_mem s1 (percpu_dctx s) c = percpu_mem s (percpu_dctx s) c"
        using e(6) by simp
      then show ?thesis using that(2) e(3) by (simp add: slots_above_def)
    qed
  qed
  show ?case
  proof (cases "r1 = 0")
    case False
    then have "s' = s1" "r = r1" using Cons.prems d by simp_all
    then show ?thesis using es1 e(2,3,4) keep False by auto
  next
    case True
    then have rest: "percpu_init_loop z cpus s1 = (r, s')" using Cons.prems d by simp
    note ih = Cons.IH [OF rest]
    from ih obtain es2 where es2: "trace s' = trace s1 @ es2" "rel_above (brk s1) es2" by blast
    have t: "trace s' = trace s @ (es1 @ es2)" using es1 es2 by simp
    have ra: "rel_above (brk s) (es1 @ es2)"
      using es1(2) rel_above_mono [OF es2(2) e(4)] by simp
    have sl: "\<forall>b \<le> brk s. slots_above b s \<longrightarrow> slots_above b s'"
      using keep ih e(4) by (meson le_trans)
    have dc: "r = 0 \<longrightarrow> (\<forall>c. c \<in> set (cpu # cpus) \<or> dctx (percpu_mem s (percpu_dctx s) c) \<noteq> NULL
                         \<longrightarrow> dctx (percpu_mem s' (percpu_dctx s') c) \<noteq> NULL)"
    proof (intro impI allI)
      fix c
      assume r0: "r = 0"
        and c: "c \<in> set (cpu # cpus) \<or> dctx (percpu_mem s (percpu_dctx s) c) \<noteq> NULL"
      have "c \<in> set cpus \<or> dctx (percpu_mem s1 (percpu_dctx s1) c) \<noteq> NULL"
      proof (cases "c = cpu")
        case True
        then show ?thesis using e(7) [OF \<open>r1 = 0\<close>] e(3) by simp
      next
        case False
        then have "percpu_mem s1 (percpu_dctx s) c = percpu_mem s (percpu_dctx s) c"
          using e(6) by simp
        then show ?thesis using c False e(3) by auto
      qed
      then show "dctx (percpu_mem s' (percpu_dctx s') c) \<noteq> NULL"
        using ih r0 by blast
    qed
    show ?thesis using t ra sl dc ih e(2,3,4) by (auto simp del: rel_above_append)
  qed
qed

lemma percpu_vfree_loop_eq:
  "percpu_vfree_loop cpus s =
     s\<lparr>trace := trace s @ map (\<lambda>c. Release VFREE (dwksp (percpu_mem s (percpu_dctx s) c))) cpus\<rparr>"
  by (induction cpus arbitrary: s) (simp_all add: vfree_def release_def)

lemma rels_map_Release [simp]: "rels (map (\<lambda>c. Release fn (f c)) cs) = map f cs"
  by (induction cs) simp_all

lemma alloc_percpu_eff:
  assumes "alloc_percpu sz s = (p, s1)"
  shows "trace s1 = trace s @ [Alloc ALLOC_PERCPU sz [] p]"
    and "ctx_mem s1 = ctx_mem s" and "percpu_dctx s1 = percpu_dctx s" and "brk s \<le> brk s1"
    and "p \<noteq> NULL \<Longrightarrow> brk s < p \<and> percpu_mem s1 p = (\<lambda>c. \<lparr>dwksp = NULL, dctx = NULL\<rparr>)"
  using assms
  by (auto simp: alloc_percpu_def alloc_def Let_def split: if_splits)

lemma zcomp_zstd_create_percpu_eff:
  assumes "zcomp_zstd_create_percpu z k ctx s = (r, s')"
  shows "\<exists>es. trace s' = trace s @ es \<and> rel_above (brk s) es"
    and "ctx_mem s' = ctx_mem s" and "brk s \<le> brk s'"
    and "r = 0 \<Longrightarrow> percpu_dctx s' \<noteq> NULL
           \<and> (\<forall>c \<in> set (possible_cpus k). dctx (percpu_mem s' (percpu_dctx s') c) \<noteq> NULL)"
proof -
  obtain p s1 where a: "alloc_percpu (2 * sizeof_ptr k) s = (p, s1)"
    by fastforce
  note e = alloc_percpu_eff [OF a]
  define s2 where "s2 = s1\<lparr>percpu_dctx := p\<rparr>"
  have s2: "trace s2 = trace s1" "ctx_mem s2 = ctx_mem s1" "brk s2 = brk s1" "percpu_dctx s2 = p"
    "percpu_mem s2 = percpu_mem s1"
    by (simp_all add: s2_def)
  obtain r3 s3 where l: "percpu_init_loop z (possible_cpus k) s2 = (r3, s3)"
    by fastforce
  note i = percpu_init_loop_eff [OF l]
  from i obtain es3 where es3: "trace s3 = trace s2 @ es3" "rel_above (brk s2) es3" by blast
  have unf: "(r, s') = (if p = NULL then (- ENOMEM, s2)
              else if r3 \<noteq> 0 then (r3, percpu_vfree_loop (possible_cpus k) s3) else (0, s3))"
    using assms a l by (auto simp: zcomp_zstd_create_percpu_def Let_def s2_def split: if_splits)
  have above: "slots_above (brk s) s3" if "p \<noteq> NULL"
  proof -
    have "slots_above (brk s) s2"
      using e(5) [OF that] s2 by (simp add: slots_above_def)
    moreover have "brk s \<le> brk s2" using e(4) s2 by simp
    ultimately show ?thesis using i by blast
  qed
  have ra3: "rel_above (brk s) es3"
    using rel_above_mono [OF es3(2)] e(4) s2 by simp
  show "\<exists>es. trace s' = trace s @ es \<and> rel_above (brk s) es"
  proof (cases "p = NULL")
    case True
    then show ?thesis using unf e(1) s2 by (simp add: rel_above_def)
  next
    case False
    note ab = above [OF False]
    show ?thesis
    proof (cases "r3 = 0")
      case True
      then have "s' = s3" using unf False by simp
      then have "trace s' = trace s @ (Alloc ALLOC_PERCPU (2 * sizeof_ptr k) [] p # es3)"
        using es3 s2 e(1) by simp
      moreover have "rel_above (brk s) (Alloc ALLOC_PERCPU (2 * sizeof_ptr k) [] p # es3)"
        using ra3 by (simp add: rel_above_def)
      ultimately show ?thesis by blast
    next
      case r3: False
      define vs where "vs = map (\<lambda>c. Release VFREE (dwksp (percpu_mem s3 (percpu_dctx s3) c)))
        (possible_cpus k)"
      have "s' = percpu_vfree_loop (possible_cpus k) s3" using unf False r3 by simp
      then have "trace s' = trace s @ (Alloc ALLOC_PERCPU (2 * sizeof_ptr k) [] p # es3 @ vs)"
        using es3 s2 e(1) by (simp add: percpu_vfree_loop_eq vs_def)
      moreover have "rels vs = map (\<lambda>c. dwksp (percpu_mem s3 (percpu_dctx s3) c)) (possible_cpus k)"
        unfolding vs_def by simp
      then have "rel_above (brk s) vs"
        using ab by (auto simp: rel_above_def slots_above_def)
      then have "rel_above (brk s) (Alloc ALLOC_PERCPU (2 * sizeof_ptr k) [] p # es3 @ vs)"
        using ra3 by (auto simp: rel_above_def)
      ultimately show ?thesis by blast
    qed
  qed
  show "ctx_mem s' = ctx_mem s"
    using unf i e(2) s2 by (auto simp: percpu_vfree_loop_eq split: if_splits)
  show "brk s \<le> brk s'"
    using unf i e(4) s2 by (auto simp: percpu_vfree_loop_eq split: if_splits)
  show "percpu_dctx s' \<noteq> NULL
           \<and> (\<forall>c \<in> set (possible_cpus k). dctx (percpu_mem s' (percpu_dctx s') c) \<noteq> NULL)"
    if "r = 0"
  proof -
    have pn: "p \<noteq> NULL" using unf that by (auto split: if_splits)
    have r3: "r3 = 0" using unf that pn by (auto split: if_splits)
    have "s' = s3" using unf pn r3 by simp
    then show ?thesis using i r3 pn s2 by auto
  qed
qed

lemma kmalloc_eff:
  assumes "kmalloc sz flags s = (c, s1)"
  shows "trace s1 = trace s @ [Alloc KMALLOC sz flags c]"
    and "ctx_mem s1 = ctx_mem s" and "percpu_mem s1 = percpu_mem s"
    and "percpu_dctx s1 = percpu_dctx s"
    and "c = (if alloc_ok s (nalloc s) then Suc (brk s) else NULL)"
    and "brk s1 = (if alloc_ok s (nalloc s) then Suc (brk s) else brk s)"
  using assms by (auto simp: kmalloc_def alloc_def Let_def)

lemma zcomp_zstd_create_cases:
  assumes "kmalloc (2 * sizeof_ptr k) [GFP_KERNEL] s = (c, s1)"
    and "zstd_comp_init z k c s1 = (r2, s2)"
    and "zcomp_zstd_create_percpu z k c s2 = (r3, s3)"
  shows "zcomp_zstd_create z k s =
      (if c = NULL then (NULL, s1)
       else if r2 \<noteq> 0 then (NULL, kvfree (cwksp (ctx_mem s2 c)) s2)
       else if r3 \<noteq> 0 then (NULL, kvfree (cwksp (ctx_mem s3 c)) s3) else (c, s3))"
  using assms by (auto simp: zcomp_zstd_create_def Let_def split: if_splits)

lemma zcomp_zstd_create_success:
  assumes "zcomp_zstd_create z k s = (c, s')" and "c \<noteq> NULL"
  shows "cctx (ctx_mem s' c) \<noteq> NULL"
    and "\<forall>cpu \<in> set (possible_cpus k). dctx (percpu_mem s' (percpu_dctx s') cpu) \<noteq> NULL"
proof -
  obtain c1 s1 where a: "kmalloc (2 * sizeof_ptr k) [GFP_KERNEL] s = (c1, s1)"
    by fastforce
  obtain r2 s2 where i: "zstd_comp_init z k c1 s1 = (r2, s2)" by fastforce
  obtain r3 s3 where p: "zcomp_zstd_create_percpu z k c1 s2 = (r3, s3)" by fastforce
  note u = zcomp_zstd_create_cases [OF a i p]
  from u assms have ok: "c1 = c" "r2 = 0" "r3 = 0" "s' = s3"
    by (auto split: if_splits)
  show "cctx (ctx_mem s' c) \<noteq> NULL"
    using zstd_comp_init_eff(6) [OF i] zcomp_zstd_create_percpu_eff(2) [OF p] ok by simp
  show "\<forall>cpu \<in> set (possible_cpus k). dctx (percpu_mem s' (percpu_dctx s') cpu) \<noteq> NULL"
    using zcomp_zstd_create_percpu_eff(4) [OF p] ok by simp
qed

lemma rel_above_not_released:
  "rel_above b es \<Longrightarrow> c \<noteq> NULL \<Longrightarrow> c \<le> b \<Longrightarrow> c \<notin> set (rels es)"
  by (auto simp: rel_above_def)




subsection \<open>The sizes of the workspaces\<close>

lemma events_since_trans:
  "trace s1 = trace s @ es1 \<Longrightarrow> trace s2 = trace s1 @ es2
   \<Longrightarrow> events_since s s2 = events_since s s1 @ events_since s1 s2"
  by (simp add: events_since_def)

lemma events_since_refl [simp]: "events_since s s = []"
  by (simp add: events_since_def)

lemma zstd_comp_init_sizes:
  "alloc_sizes (events_since s (snd (zstd_comp_init z k ctx s))) =
     (if alloc_ok s (nalloc s)
      then [ZSTD_CCtxWorkspaceBound z (cParams (ZSTD_getParams z 1 (PAGE_SIZE k) 0))]
      else [ZSTD_CCtxWorkspaceBound z (cParams (ZSTD_getParams z 1 (PAGE_SIZE k) 0)),
            ZSTD_CCtxWorkspaceBound z (cParams (ZSTD_getParams z 1 (PAGE_SIZE k) 0))])"
  "wksp_sizes (events_since s (snd (zstd_comp_init z k ctx s))) =
     (if fst (zstd_comp_init z k ctx s) = - ENOMEM then []
      else [ZSTD_CCtxWorkspaceBound z (cParams (ZSTD_getParams z 1 (PAGE_SIZE k) 0))])"
  by (simp_all add: zstd_comp_init_def zstd_params_def alloc_mem_def kzalloc_def kmalloc_def
      vmalloc_gfp_def alloc_def Let_def events_since_def vfree_def release_def)

lemma zstd_decomp_init_sizes:
  "alloc_sizes (events_since s (snd (zstd_decomp_init z p s))) =
     (if alloc_ok s (nalloc s)
      then [ZSTD_DCtxWorkspaceBound z]
      else [ZSTD_DCtxWorkspaceBound z, ZSTD_DCtxWorkspaceBound z])"
  "wksp_sizes (events_since s (snd (zstd_decomp_init z p s))) = []
   \<or> wksp_sizes (events_since s (snd (zstd_decomp_init z p s))) = [ZSTD_DCtxWorkspaceBound z]"
  by (simp_all add: zstd_decomp_init_def alloc_mem_def kzalloc_def kmalloc_def
      vmalloc_gfp_def alloc_def Let_def events_since_def vfree_def release_def)

lemma percpu_init_loop_sizes:
  "\<exists>m \<le> length cpus. wksp_sizes (events_since s (snd (percpu_init_loop z cpus s)))
      = replicate m (ZSTD_DCtxWorkspaceBound z)"
proof (induction cpus arbitrary: s)
  case Nil
  then show ?case by simp
next
  case (Cons cpu cpus)
  obtain r1 s1 where d: "zstd_decomp_init z (percpu_dctx s, cpu) s = (r1, s1)"
    by fastforce
  from zstd_decomp_init_eff(1) [OF d] obtain es1 where es1: "trace s1 = trace s @ es1"
    by blast
  have w1: "wksp_sizes (events_since s s1) = [] \<or>
            wksp_sizes (events_since s s1) = [ZSTD_DCtxWorkspaceBound z]"
    using zstd_decomp_init_sizes(2) [of s z "(percpu_dctx s, cpu)"] d by simp
  show ?case
  proof (cases "r1 = 0")
    case False
    then have "snd (percpu_init_loop z (cpu # cpus) s) = s1" using d by simp
    then show ?thesis using w1
      by (metis One_nat_def le_add1 length_Cons list.size(3) plus_1_eq_Suc replicate_0
          replicate_Suc zero_le)
  next
    case True
    obtain r2 s2 where l: "percpu_init_loop z cpus s1 = (r2, s2)" by fastforce
    from percpu_init_loop_eff [OF l] obtain es2 where es2: "trace s2 = trace s1 @ es2"
      by blast
    from Cons.IH [of s1] l obtain m where m: "m \<le> length cpus"
      "wksp_sizes (events_since s1 s2) = replicate m (ZSTD_DCtxWorkspaceBound z)"
      by auto
    have "snd (percpu_init_loop z (cpu # cpus) s) = s2" using d l True by simp
    moreover have "wksp_sizes (events_since s s2) =
        wksp_sizes (events_since s s1) @ replicate m (ZSTD_DCtxWorkspaceBound z)"
      using events_since_trans [OF es1 es2] m(2) by simp
    ultimately show ?thesis using w1 m(1)
      by (metis Suc_le_mono append_Cons append_Nil le_SucI length_Cons replicate_Suc)
  qed
qed

lemma wksp_sizes_map_Release [simp]:
  "wksp_sizes (map (\<lambda>c. Release fn (f c)) cs) = []"
  by (induction cs) simp_all

lemma zcomp_zstd_create_percpu_sizes:
  "\<exists>m \<le> length (possible_cpus k).
     wksp_sizes (events_since s (snd (zcomp_zstd_create_percpu z k ctx s)))
       = replicate m (ZSTD_DCtxWorkspaceBound z)"
proof -
  obtain p s1 where a: "alloc_percpu (2 * sizeof_ptr k) s = (p, s1)"
    by fastforce
  note e = alloc_percpu_eff [OF a]
  define s2 where "s2 = s1\<lparr>percpu_dctx := p\<rparr>"
  have t2: "trace s2 = trace s @ [Alloc ALLOC_PERCPU (2 * sizeof_ptr k) [] p]"
    using e(1) by (simp add: s2_def)
  obtain r3 s3 where l: "percpu_init_loop z (possible_cpus k) s2 = (r3, s3)"
    by fastforce
  from percpu_init_loop_eff [OF l] obtain es3 where es3: "trace s3 = trace s2 @ es3"
    by blast
  from percpu_init_loop_sizes [of "possible_cpus k" s2 z] l
  obtain m where m: "m \<le> length (possible_cpus k)"
    "wksp_sizes (events_since s2 s3) = replicate m (ZSTD_DCtxWorkspaceBound z)"
    by auto
  have w3: "wksp_sizes (events_since s s3) = replicate m (ZSTD_DCtxWorkspaceBound z)"
    using events_since_trans [OF t2 es3] m(2) t2 by (simp add: events_since_def)
  have unf: "snd (zcomp_zstd_create_percpu z k ctx s) = (if p = NULL then s2
              else if r3 \<noteq> 0 then percpu_vfree_loop (possible_cpus k) s3 else s3)"
    using a l by (auto simp: zcomp_zstd_create_percpu_def Let_def s2_def split: if_splits)
  show ?thesis
  proof (cases "p = NULL")
    case True
    then have "wksp_sizes (events_since s (snd (zcomp_zstd_create_percpu z k ctx s))) = []"
      using unf t2 by (simp add: events_since_def)
    then show ?thesis by (metis replicate_0 zero_le)
  next
    case False
    have "wksp_sizes (events_since s (percpu_vfree_loop (possible_cpus k) s3))
            = wksp_sizes (events_since s s3)"
      using t2 es3 by (simp add: percpu_vfree_loop_eq events_since_def)
    then show ?thesis using unf False w3 m(1) by auto
  qed
qed

lemma zcomp_zstd_create_sizes:
  "wksp_sizes (events_since s (snd (zcomp_zstd_create z k s))) = []
   \<or> (\<exists>m \<le> length (possible_cpus k).
        wksp_sizes (events_since s (snd (zcomp_zstd_create z k s)))
          = ZSTD_CCtxWorkspaceBound z (cParams (ZSTD_getParams z 1 (PAGE_SIZE k) 0))
            # replicate m (ZSTD_DCtxWorkspaceBound z))"
proof -
  let ?cw = "ZSTD_CCtxWorkspaceBound z (cParams (ZSTD_getParams z 1 (PAGE_SIZE k) 0))"
  let ?dw = "ZSTD_DCtxWorkspaceBound z"
  obtain c s1 where a: "kmalloc (2 * sizeof_ptr k) [GFP_KERNEL] s = (c, s1)"
    by fastforce
  have t1: "trace s1 = trace s @ [Alloc KMALLOC (2 * sizeof_ptr k) [GFP_KERNEL] c]"
    using a by (auto simp: kmalloc_def alloc_def Let_def)
  obtain r2 s2 where i: "zstd_comp_init z k c s1 = (r2, s2)" by fastforce
  from zstd_comp_init_eff(1) [OF i] obtain es2 where es2: "trace s2 = trace s1 @ es2"
    by blast
  have w2: "wksp_sizes (events_since s1 s2) = (if r2 = - ENOMEM then [] else [?cw])"
    using zstd_comp_init_sizes(2) [of s1 z k c] i by simp
  have w02: "wksp_sizes (events_since s s2) = (if r2 = - ENOMEM then [] else [?cw])"
    using events_since_trans [OF t1 es2] w2 t1 by (simp add: events_since_def)
  obtain r3 s3 where p: "zcomp_zstd_create_percpu z k c s2 = (r3, s3)" by fastforce
  from zcomp_zstd_create_percpu_eff(1) [OF p] obtain es3 where es3: "trace s3 = trace s2 @ es3"
    by blast
  from zcomp_zstd_create_percpu_sizes [of k s2 z c] p
  obtain m where m: "m \<le> length (possible_cpus k)"
    "wksp_sizes (events_since s2 s3) = replicate m ?dw"
    by auto
  have t02: "trace s2 = trace s @ (Alloc KMALLOC (2 * sizeof_ptr k) [GFP_KERNEL] c # es2)"
    using t1 es2 by simp
  have w03: "wksp_sizes (events_since s s3) = (if r2 = - ENOMEM then [] else [?cw]) @ replicate m ?dw"
    using events_since_trans [OF t02 es3] w02 m(2) by simp
  have unf: "snd (zcomp_zstd_create z k s) =
      (if c = NULL then s1
       else if r2 \<noteq> 0 then kvfree (cwksp (ctx_mem s2 c)) s2
       else if r3 \<noteq> 0 then kvfree (cwksp (ctx_mem s3 c)) s3 else s3)"
    using a i p by (auto simp: zcomp_zstd_create_def Let_def split: if_splits)
  have kv: "wksp_sizes (events_since s (kvfree x s')) = wksp_sizes (events_since s s')"
    if "trace s' = trace s @ es" for x s' es
    using that by (simp add: kvfree_def release_def events_since_def)
  consider "c = NULL" | "c \<noteq> NULL" "r2 \<noteq> 0" | "c \<noteq> NULL" "r2 = 0" by blast
  then show ?thesis
  proof cases
    case 1
    then show ?thesis using unf t1 by (simp add: events_since_def)
  next
    case 2
    then have "wksp_sizes (events_since s (snd (zcomp_zstd_create z k s))) =
        (if r2 = - ENOMEM then [] else [?cw])"
      using unf kv [OF t02] w02 by simp
    then show ?thesis by (metis replicate_0 zero_le)
  next
    case 3
    have t03: "trace s3 = trace s @ ((Alloc KMALLOC (2 * sizeof_ptr k) [GFP_KERNEL] c # es2) @ es3)"
      using t02 es3 by simp
    have "wksp_sizes (events_since s (snd (zcomp_zstd_create z k s))) = ?cw # replicate m ?dw"
      using unf 3 kv [OF t03] w03 by simp
    then show ?thesis using m(1) by blast
  qed
qed

subsection \<open>Running the model on the concrete configuration\<close>

lemmas run_defs = zcomp_zstd_create_def zcomp_zstd_create_percpu_def zstd_comp_init_def
  zstd_decomp_init_def alloc_mem_def kzalloc_def kmalloc_def vmalloc_gfp_def alloc_def
  alloc_percpu_def vfree_def kvfree_def kfree_def free_percpu_def release_def zstd_params_def
  zcomp_zstd_destroy_def pr_err_def Let_def

lemmas conf_defs = boot_def quad_def stored_zstd_def stored_zstd_no_cctx_def
  stored_zstd_no_dctx_def stored_zstd_failing_def

lemmas stored_defs = stored_isError_def stored_ERROR_def stored_maxCode_def
  stored_getErrorCode_def stored_compress_def stored_decompress_def

lemma active_fields:
  "fst (zcomp_zstd_create stored_zstd quad boot) = 1"
  "percpu_dctx active = 3"
  "ctx_mem active 1 = \<lparr>cwksp = 2, cctx = 2\<rparr>"
  "percpu_mem active 3 2 = \<lparr>dwksp = 6, dctx = 6\<rparr>"
  "length (trace active) = 7"
  by (simp_all add: active_def run_defs conf_defs)



lemma stored_respects_capacity: "zstd_respects_capacity stored_zstd"
  by (simp add: zstd_respects_capacity_def stored_zstd_def stored_defs)

lemma stored_lossless: "zstd_lossless stored_zstd"
  unfolding zstd_lossless_def
proof (intro allI impI)
  fix hc hd dst cap src n p dst2 cap2
  assume a: "hc \<noteq> NULL \<and> hd \<noteq> NULL \<and> n \<le> length src \<and> n \<le> cap2 \<and>
     ZSTD_isError stored_zstd (fst (ZSTD_compressCCtx stored_zstd hc dst cap src n p)) = 0"
  then have fits: "\<not> cap < Suc n" and small: "\<not> Suc n > 2 ^ 32 - 22"
    by (auto simp: stored_zstd_def stored_defs split: if_splits)
  have c: "ZSTD_compressCCtx stored_zstd hc dst cap src n p
      = (Suc n, (1 # take n src) @ drop (Suc n) dst)"
    using fits by (simp add: stored_zstd_def stored_compress_def)
  have len: "length (take n src) = n" using a by simp
  have d: "ZSTD_decompressDCtx stored_zstd hd dst2 cap2 ((1 # take n src) @ drop (Suc n) dst) (Suc n)
      = (n, take n src @ drop n dst2)"
    using a len by (simp add: stored_zstd_def stored_decompress_def)
  have e: "ZSTD_isError stored_zstd n = 0"
    using small by (simp add: stored_zstd_def stored_defs)
  show "let (len, out) = ZSTD_compressCCtx stored_zstd hc dst cap src n p;
            (r, out2) = ZSTD_decompressDCtx stored_zstd hd dst2 cap2 out len
        in ZSTD_isError stored_zstd r = 0 \<and> r = n \<and> take n out2 = take n src"
    using c d e len by simp
qed

subsection \<open>The bounded allocator\<close>

text \<open>
  C6. For every byte count and in every state, \<open>alloc_mem\<close> first makes one direct
  attempt, \<^verbatim>\<open>kzalloc\<close> with \<^verbatim>\<open>GFP_NOIO | __GFP_NORETRY | __GFP_NOWARN\<close> (zeroed by
  \<^verbatim>\<open>kzalloc\<close> itself). When that attempt succeeds it is the only one and its pointer is
  returned; when it fails, and only then, a second attempt follows, \<^verbatim>\<open>__vmalloc\<close> with
  the same three flags and \<^verbatim>\<open>__GFP_ZERO | __GFP_HIGHMEM\<close>, and its result is returned.
  The result is \<open>NULL\<close> exactly when both attempts fail, and otherwise a fresh region,
  obtained with \<^verbatim>\<open>__GFP_ZERO\<close>.
\<close>

theorem alloc_mem_two_tiers:
  "trace (snd (alloc_mem sz s)) = trace s @
     (if alloc_ok s (nalloc s)
      then [Alloc KMALLOC sz [GFP_NOIO, GFP_NORETRY, GFP_NOWARN, GFP_ZERO] (fst (alloc_mem sz s))]
      else [Alloc KMALLOC sz [GFP_NOIO, GFP_NORETRY, GFP_NOWARN, GFP_ZERO] NULL,
            Alloc VMALLOC sz [GFP_NOIO, GFP_NORETRY, GFP_NOWARN, GFP_ZERO, GFP_HIGHMEM]
              (fst (alloc_mem sz s))])
   \<and> (fst (alloc_mem sz s) = NULL
        \<longleftrightarrow> \<not> alloc_ok s (nalloc s) \<and> \<not> alloc_ok s (Suc (nalloc s)))
   \<and> (fst (alloc_mem sz s) = NULL \<or> fst (alloc_mem sz s) = Suc (brk s))"
  by (simp add: alloc_mem_def kzalloc_def kmalloc_def vmalloc_gfp_def alloc_def Let_def)

subsection \<open>Workspace sizes\<close>

text \<open>
  C9, as the specification states it: "every WorkspaceBuffer in the system has identical
  size". The compression workspace is sized by \<^verbatim>\<open>ZSTD_CCtxWorkspaceBound\<close> and the
  decompression workspaces by \<^verbatim>\<open>ZSTD_DCtxWorkspaceBound\<close>, two functions of the codec
  that the file does not relate. With the storing codec one successful creation obtains
  a workspace of 1088 bytes and four of 256 bytes.
\<close>

theorem workspaces_differ_in_size_counterexample:
  "wksp_sizes (trace active) = [1088, 256, 256, 256, 256] \<and> (1088::nat) \<noteq> 256"
  by (simp add: active_def run_defs conf_defs)

text \<open>
  C9, amended. The sizes are computed from fixed constants only (level 1 and the page
  size), never from an argument or from the state. In every state, every allocation
  attempt of \<open>zstd_comp_init\<close> asks for
  \<^verbatim>\<open>ZSTD_CCtxWorkspaceBound(ZSTD_getParams(1, PAGE_SIZE, 0).cParams)\<close> bytes and every
  attempt of \<open>zstd_decomp_init\<close> for \<^verbatim>\<open>ZSTD_DCtxWorkspaceBound()\<close> bytes; and the
  workspaces one run of \<open>zcomp_zstd_create\<close> obtains are, in order, at most one of the
  first size followed by at most one per possible CPU of the second size. So workspaces
  of the same kind have the same size in every creation cycle; the two kinds need not
  agree.
\<close>

theorem workspace_sizes_fixed:
  "alloc_sizes (events_since s (snd (zstd_comp_init z k ctx s))) =
     (if alloc_ok s (nalloc s)
      then [ZSTD_CCtxWorkspaceBound z (cParams (ZSTD_getParams z 1 (PAGE_SIZE k) 0))]
      else [ZSTD_CCtxWorkspaceBound z (cParams (ZSTD_getParams z 1 (PAGE_SIZE k) 0)),
            ZSTD_CCtxWorkspaceBound z (cParams (ZSTD_getParams z 1 (PAGE_SIZE k) 0))])
   \<and> alloc_sizes (events_since s (snd (zstd_decomp_init z p s))) =
     (if alloc_ok s (nalloc s)
      then [ZSTD_DCtxWorkspaceBound z]
      else [ZSTD_DCtxWorkspaceBound z, ZSTD_DCtxWorkspaceBound z])
   \<and> (wksp_sizes (events_since s (snd (zcomp_zstd_create z k s))) = []
      \<or> (\<exists>m \<le> length (possible_cpus k).
           wksp_sizes (events_since s (snd (zcomp_zstd_create z k s)))
             = ZSTD_CCtxWorkspaceBound z (cParams (ZSTD_getParams z 1 (PAGE_SIZE k) 0))
               # replicate m (ZSTD_DCtxWorkspaceBound z)))"
  using zstd_comp_init_sizes(1) [of s z k ctx] zstd_decomp_init_sizes(1) [of s z p]
    zcomp_zstd_create_sizes [of s z k]
  by blast

subsection \<open>Pool creation that fails part of the way\<close>

text \<open>
  In every state: once the table was allocated, a creation of the pool that fails
  returns with \<^verbatim>\<open>percpu_dctx\<close> still pointing to the table.
\<close>

lemma create_percpu_failure_leaves_reference:
  assumes "alloc_ok s (nalloc s)" and "fst (zcomp_zstd_create_percpu z k ctx s) \<noteq> 0"
  shows "percpu_dctx (snd (zcomp_zstd_create_percpu z k ctx s)) = Suc (brk s)"
proof -
  obtain p s1 where a: "alloc_percpu (2 * sizeof_ptr k) s = (p, s1)"
    by fastforce
  have p: "p = Suc (brk s)"
    using a assms(1) by (auto simp: alloc_percpu_def alloc_def Let_def)
  obtain r3 s3 where l: "percpu_init_loop z (possible_cpus k) (s1\<lparr>percpu_dctx := p\<rparr>) = (r3, s3)"
    by fastforce
  from percpu_init_loop_eff [OF l] have "percpu_dctx s3 = p" by simp
  then show ?thesis
    using a l p by (auto simp: zcomp_zstd_create_percpu_def Let_def percpu_vfree_loop_eq)
qed

text \<open>
  C1. The specification wants that, when a slot fails to initialise, the workspaces of
  the slots initialised so far are released, the slot table is released and
  \<^verbatim>\<open>percpu_dctx\<close> is \<open>NULL\<close> afterwards. The code under \<^verbatim>\<open>failure:\<close> does the first and returns: at boot,
  with four possible CPUs and an allocator that fails from the fifth attempt on (the
  workspace of CPU 1, in both tiers), creation returns \<open>NULL\<close>, the workspace of CPU 0
  (address 4) is released, but the table (address 3) is never handed to
  \<^verbatim>\<open>free_percpu\<close> and \<^verbatim>\<open>percpu_dctx\<close> still points to it.
\<close>

theorem create_failure_keeps_pool_table:
  "fst (zcomp_zstd_create stored_zstd quad (boot\<lparr>alloc_ok := (\<lambda>n. n < 4)\<rparr>)) = NULL
   \<and> percpu_dctx (snd (zcomp_zstd_create stored_zstd quad (boot\<lparr>alloc_ok := (\<lambda>n. n < 4)\<rparr>))) = 3
   \<and> trace (snd (zcomp_zstd_create stored_zstd quad (boot\<lparr>alloc_ok := (\<lambda>n. n < 4)\<rparr>))) =
       [Alloc KMALLOC 8 [GFP_KERNEL] 1,
        Alloc KMALLOC 1088 [GFP_NOIO, GFP_NORETRY, GFP_NOWARN, GFP_ZERO] 2,
        Alloc ALLOC_PERCPU 8 [] 3,
        Alloc KMALLOC 256 [GFP_NOIO, GFP_NORETRY, GFP_NOWARN, GFP_ZERO] 4,
        Alloc KMALLOC 256 [GFP_NOIO, GFP_NORETRY, GFP_NOWARN, GFP_ZERO] NULL,
        Alloc VMALLOC 256 [GFP_NOIO, GFP_NORETRY, GFP_NOWARN, GFP_ZERO, GFP_HIGHMEM] NULL,
        Release VFREE 4, Release VFREE NULL, Release VFREE NULL, Release VFREE NULL,
        Release KVFREE 2]"
  by (simp add: run_defs conf_defs)

subsection \<open>Engine construction that fails\<close>

text \<open>
  In every state: when the record and the workspace were allocated and the engine
  constructor refuses the workspace, creation is these four calls, the last two on the
  same pointer.
\<close>

lemma cctx_refused_releases_twice:
  assumes "alloc_ok s (nalloc s)" and "alloc_ok s (Suc (nalloc s))"
    and "ZSTD_initCCtx z (Suc (Suc (brk s)))
           (ZSTD_CCtxWorkspaceBound z (cParams (ZSTD_getParams z 1 (PAGE_SIZE k) 0))) = NULL"
  shows "events_since s (snd (zcomp_zstd_create z k s)) =
     [Alloc KMALLOC (2 * sizeof_ptr k) [GFP_KERNEL] (Suc (brk s)),
      Alloc KMALLOC (ZSTD_CCtxWorkspaceBound z (cParams (ZSTD_getParams z 1 (PAGE_SIZE k) 0)))
        [GFP_NOIO, GFP_NORETRY, GFP_NOWARN, GFP_ZERO] (Suc (Suc (brk s))),
      Release VFREE (Suc (Suc (brk s))), Release KVFREE (Suc (Suc (brk s)))]"
  using assms
  by (simp add: zcomp_zstd_create_def zstd_comp_init_def alloc_mem_def kzalloc_def kmalloc_def
      alloc_def vfree_def kvfree_def release_def zstd_params_def Let_def events_since_def)

text \<open>
  C2. The specification wants every workspace released exactly once on every path. When
  the engine constructor refuses a workspace, the init function releases it under
  \<^verbatim>\<open>out_free\<close> and leaves the pointer in the struct, and the caller's cleanup releases
  the same pointer again. With a codec whose \<^verbatim>\<open>ZSTD_initCCtx\<close> returns \<open>NULL\<close>, the
  compression workspace (address 2) goes to \<^verbatim>\<open>vfree\<close> and then to \<^verbatim>\<open>kvfree\<close>; with
  one whose \<^verbatim>\<open>ZSTD_initDCtx\<close> returns \<open>NULL\<close>, the workspace of CPU 0 (address 4) goes
  to \<^verbatim>\<open>vfree\<close> twice.
\<close>

theorem engine_init_failure_frees_twice:
  "trace (snd (zcomp_zstd_create stored_zstd_no_cctx quad boot)) =
       [Alloc KMALLOC 8 [GFP_KERNEL] 1,
        Alloc KMALLOC 1088 [GFP_NOIO, GFP_NORETRY, GFP_NOWARN, GFP_ZERO] 2,
        Release VFREE 2, Release KVFREE 2]
   \<and> release_count 2 (trace (snd (zcomp_zstd_create stored_zstd_no_cctx quad boot))) = 2
   \<and> trace (snd (zcomp_zstd_create stored_zstd_no_dctx quad boot)) =
       [Alloc KMALLOC 8 [GFP_KERNEL] 1,
        Alloc KMALLOC 1088 [GFP_NOIO, GFP_NORETRY, GFP_NOWARN, GFP_ZERO] 2,
        Alloc ALLOC_PERCPU 8 [] 3,
        Alloc KMALLOC 256 [GFP_NOIO, GFP_NORETRY, GFP_NOWARN, GFP_ZERO] 4,
        Release VFREE 4,
        Release VFREE 4, Release VFREE NULL, Release VFREE NULL, Release VFREE NULL,
        Release KVFREE 2]
   \<and> release_count 4 (trace (snd (zcomp_zstd_create stored_zstd_no_dctx quad boot))) = 2"
  by (simp add: run_defs conf_defs release_count_def)

subsection \<open>The instance record on the failure branches of creation\<close>

text \<open>
  C4. Whenever \<open>zcomp_zstd_create\<close> has obtained its instance record and then
  returns \<open>NULL\<close> (the compression context or the pool could not be set up), the run
  starts with the \<^verbatim>\<open>kmalloc\<close> of the record, ends with \<^verbatim>\<open>kvfree(ctx->cwksp)\<close>, and
  hands the record itself to no release function: the record is leaked.
\<close>

theorem create_failure_leaks_instance_record:
  assumes kmalloc_ok: "alloc_ok s (nalloc s)"
    and failed: "fst (zcomp_zstd_create z k s) = NULL"
  shows "hd (events_since s (snd (zcomp_zstd_create z k s)))
           = Alloc KMALLOC (2 * sizeof_ptr k) [GFP_KERNEL] (Suc (brk s))
       \<and> release_count (Suc (brk s)) (events_since s (snd (zcomp_zstd_create z k s))) = 0
       \<and> last (events_since s (snd (zcomp_zstd_create z k s)))
           = Release KVFREE (cwksp (ctx_mem (snd (zcomp_zstd_create z k s)) (Suc (brk s))))"
proof -
  let ?c = "Suc (brk s)"
  let ?A = "Alloc KMALLOC (2 * sizeof_ptr k) [GFP_KERNEL] ?c"
  obtain c1 s1 where a: "kmalloc (2 * sizeof_ptr k) [GFP_KERNEL] s = (c1, s1)"
    by fastforce
  note ka = kmalloc_eff [OF a]
  have c1: "c1 = ?c" and b1: "brk s1 = ?c" using ka(5,6) kmalloc_ok by simp_all
  have t1: "trace s1 = trace s @ [?A]" using ka(1) c1 by simp
  obtain r2 s2 where i: "zstd_comp_init z k ?c s1 = (r2, s2)" by fastforce
  note ie = zstd_comp_init_eff [OF i]
  from ie(1) obtain es2 where es2: "trace s2 = trace s1 @ es2" "rel_above ?c es2"
    using b1 by auto
  obtain r3 s3 where p: "zcomp_zstd_create_percpu z k ?c s2 = (r3, s3)" by fastforce
  note pe = zcomp_zstd_create_percpu_eff [OF p]
  from pe(1) obtain es3 where es3: "trace s3 = trace s2 @ es3" "rel_above (brk s2) es3"
    by auto
  have ra3: "rel_above ?c es3" using rel_above_mono [OF es3(2)] ie(4) b1 by simp
  have w2: "cwksp (ctx_mem s2 ?c) = NULL \<or> ?c < cwksp (ctx_mem s2 ?c)"
    using ie(5) b1 by simp
  have w3: "ctx_mem s3 = ctx_mem s2" using pe(2) .
  note u = zcomp_zstd_create_cases [OF a [unfolded c1] i p]
  from u failed have r: "r2 \<noteq> 0 \<or> r3 \<noteq> 0" by (auto split: if_splits)
  define w where "w = cwksp (ctx_mem s2 ?c)"
  define es where "es = (if r2 \<noteq> 0 then es2 else es2 @ es3)"
  have final: "snd (zcomp_zstd_create z k s) = kvfree w (if r2 \<noteq> 0 then s2 else s3)"
    using u r w3 by (auto simp: w_def)
  have ev: "events_since s (snd (zcomp_zstd_create z k s)) = ?A # es @ [Release KVFREE w]"
    using final t1 es2 es3 by (simp add: events_since_def kvfree_def release_def es_def)
  have mem: "ctx_mem (snd (zcomp_zstd_create z k s)) = ctx_mem s2"
    using final w3 by (simp add: kvfree_def release_def)
  have "rel_above ?c (?A # es @ [Release KVFREE w])"
    using es2(2) ra3 w2 by (auto simp: rel_above_def es_def w_def)
  then have "?c \<notin> set (rels (?A # es @ [Release KVFREE w]))"
    by (rule rel_above_not_released) simp_all
  then have "release_count ?c (?A # es @ [Release KVFREE w]) = 0"
    by (simp add: release_count_def count_list_0_iff)
  then show ?thesis using ev mem by (simp add: w_def)
qed

theorem create_failure_leaks_instance_record_witness:
  "alloc_ok boot (nalloc boot)
   \<and> fst (zcomp_zstd_create stored_zstd_no_dctx quad boot) = NULL
   \<and> hd (events_since boot (snd (zcomp_zstd_create stored_zstd_no_dctx quad boot)))
       = Alloc KMALLOC 8 [GFP_KERNEL] 1
   \<and> release_count 1 (events_since boot (snd (zcomp_zstd_create stored_zstd_no_dctx quad boot))) = 0
   \<and> last (events_since boot (snd (zcomp_zstd_create stored_zstd_no_dctx quad boot)))
       = Release KVFREE 2"
proof -
  have ok: "alloc_ok boot (nalloc boot)" by (simp add: boot_def)
  have failed: "fst (zcomp_zstd_create stored_zstd_no_dctx quad boot) = NULL"
    by (simp add: run_defs conf_defs)
  have w: "cwksp (ctx_mem (snd (zcomp_zstd_create stored_zstd_no_dctx quad boot)) 1) = 2"
    by (simp add: run_defs conf_defs)
  have q: "sizeof_ptr quad = 4" "brk boot = 0" by (simp_all add: quad_def boot_def)
  from create_failure_leaks_instance_record [OF ok failed]
  show ?thesis using ok failed w by (simp add: q)
qed

subsection \<open>Destruction\<close>




subsection \<open>Compression\<close>

text \<open>
  C8, as the specification states it: on a codec error the return value carries the
  codec's diagnostic code. The function returns \<^verbatim>\<open>ZSTD_isError(len)\<close>, the truth value of the
  test, and passes \<^verbatim>\<open>ZSTD_getErrorCode(len)\<close> to \<^verbatim>\<open>pr_err\<close> only. With a codec that
  reports code 12 the call returns 1.
\<close>

theorem compress_return_is_not_the_code_counterexample:
  "ZSTD_isError stored_zstd_failing (fst (ZSTD_compressCCtx stored_zstd_failing
      (cctx (ctx_mem active 1)) [0, 0, 0, 0, 0, 0, 0, 0, 0, 0, 0, 0, 0, 0, 0, 0]
      (2 * PAGE_SIZE quad) [1, 2, 3, 4, 5, 6, 7, 8] (PAGE_SIZE quad)
      (ZSTD_getParams stored_zstd_failing 1 (PAGE_SIZE quad) 0))) \<noteq> 0
   \<and> ZSTD_getErrorCode stored_zstd_failing (fst (ZSTD_compressCCtx stored_zstd_failing
      (cctx (ctx_mem active 1)) [0, 0, 0, 0, 0, 0, 0, 0, 0, 0, 0, 0, 0, 0, 0, 0]
      (2 * PAGE_SIZE quad) [1, 2, 3, 4, 5, 6, 7, 8] (PAGE_SIZE quad)
      (ZSTD_getParams stored_zstd_failing 1 (PAGE_SIZE quad) 0))) = 12
   \<and> fst (zcomp_zstd_compress stored_zstd_failing quad [1, 2, 3, 4, 5, 6, 7, 8]
        [0, 0, 0, 0, 0, 0, 0, 0, 0, 0, 0, 0, 0, 0, 0, 0] 0 1 active) = 1"
  by (simp add: zcomp_zstd_compress_def zstd_params_def conf_defs stored_defs)

text \<open>
  C8, amended. \<open>zcomp_zstd_compress\<close> returns zero exactly when the codec's result
  is not an error, and then \<^verbatim>\<open>*dst_len\<close> is the codec's result and nothing is logged.
  When the codec reports an error, the return value is the non-zero value of
  \<^verbatim>\<open>ZSTD_isError\<close> (converted to \<^verbatim>\<open>int\<close>), not the diagnostic code, and the diagnostic
  code is logged with \<^verbatim>\<open>pr_err\<close>.
\<close>

theorem compress_return_value:
  "(let len = fst (ZSTD_compressCCtx z (cctx (ctx_mem s private)) dst (2 * PAGE_SIZE k)
                src (PAGE_SIZE k) (ZSTD_getParams z 1 (PAGE_SIZE k) 0));
        r = zcomp_zstd_compress z k src dst dst_len private s
    in (fst r = 0 \<longleftrightarrow> ZSTD_isError z len = 0)
       \<and> (if ZSTD_isError z len = 0
          then fst (snd (snd r)) = len \<and> events_since s (snd (snd (snd r))) = []
          else fst r = sint (ZSTD_isError z len)
               \<and> events_since s (snd (snd (snd r)))
                   = [Printk ''[zram-zstd] Compress error %d'' (ZSTD_getErrorCode z len)]))"
  by (simp add: zcomp_zstd_compress_def zstd_params_def Let_def case_prod_unfold
      events_since_def pr_err_def signed_eq_0_iff)

text \<open>
  C10. Whenever the codec reports an error during compress, \<^verbatim>\<open>*dst_len\<close> keeps the
  value it had on entry: the store to it comes after the error check.
\<close>

theorem compress_error_keeps_dst_len:
  "ZSTD_isError z (fst (ZSTD_compressCCtx z (cctx (ctx_mem s private)) dst (2 * PAGE_SIZE k)
      src (PAGE_SIZE k) (ZSTD_getParams z 1 (PAGE_SIZE k) 0))) \<noteq> 0
   \<Longrightarrow> fst (snd (snd (zcomp_zstd_compress z k src dst dst_len private s))) = dst_len"
  by (simp add: zcomp_zstd_compress_def zstd_params_def Let_def case_prod_unfold)

theorem compress_error_keeps_dst_len_witness:
  "ZSTD_isError stored_zstd_failing (fst (ZSTD_compressCCtx stored_zstd_failing
      (cctx (ctx_mem active 1)) [0, 0, 0, 0, 0, 0, 0, 0, 0, 0, 0, 0, 0, 0, 0, 0]
      (2 * PAGE_SIZE quad) [1, 2, 3, 4, 5, 6, 7, 8] (PAGE_SIZE quad)
      (ZSTD_getParams stored_zstd_failing 1 (PAGE_SIZE quad) 0))) = 1
   \<and> fst (snd (snd (zcomp_zstd_compress stored_zstd_failing quad [1, 2, 3, 4, 5, 6, 7, 8]
        [0, 0, 0, 0, 0, 0, 0, 0, 0, 0, 0, 0, 0, 0, 0, 0] 77 1 active))) = 77"
proof -
  have e: "ZSTD_isError stored_zstd_failing (fst (ZSTD_compressCCtx stored_zstd_failing
      (cctx (ctx_mem active 1)) [0, 0, 0, 0, 0, 0, 0, 0, 0, 0, 0, 0, 0, 0, 0, 0]
      (2 * PAGE_SIZE quad) [1, 2, 3, 4, 5, 6, 7, 8] (PAGE_SIZE quad)
      (ZSTD_getParams stored_zstd_failing 1 (PAGE_SIZE quad) 0))) = 1"
    by (simp add: conf_defs stored_defs)
  then have "ZSTD_isError stored_zstd_failing (fst (ZSTD_compressCCtx stored_zstd_failing
      (cctx (ctx_mem active 1)) [0, 0, 0, 0, 0, 0, 0, 0, 0, 0, 0, 0, 0, 0, 0, 0]
      (2 * PAGE_SIZE quad) [1, 2, 3, 4, 5, 6, 7, 8] (PAGE_SIZE quad)
      (ZSTD_getParams stored_zstd_failing 1 (PAGE_SIZE quad) 0))) \<noteq> 0"
    by simp
  from compress_error_keeps_dst_len [OF this, of 77] e show ?thesis by simp
qed

text \<open>
  C5. For a codec whose successful results stay within the capacity it is given,
  whenever \<open>zcomp_zstd_compress\<close> returns zero, the length it stores in \<^verbatim>\<open>*dst_len\<close> is
  at most \<open>2 * PAGE_SIZE\<close>, the capacity it passes to the codec.
\<close>

theorem compress_len_within_two_pages:
  assumes "zstd_respects_capacity z"
    and "fst (zcomp_zstd_compress z k src dst dst_len private s) = 0"
  shows "fst (snd (snd (zcomp_zstd_compress z k src dst dst_len private s))) \<le> 2 * PAGE_SIZE k"
proof -
  define len where "len = fst (ZSTD_compressCCtx z (cctx (ctx_mem s private)) dst
    (2 * PAGE_SIZE k) src (PAGE_SIZE k) (zstd_params z k))"
  have ok: "ZSTD_isError z len = 0"
    using assms(2)
    by (simp add: zcomp_zstd_compress_def Let_def case_prod_unfold len_def signed_eq_0_iff
        split: if_splits)
  then have "len \<le> 2 * PAGE_SIZE k"
    using assms(1) unfolding zstd_respects_capacity_def len_def by blast
  moreover have "fst (snd (snd (zcomp_zstd_compress z k src dst dst_len private s))) = len"
    using ok by (simp add: zcomp_zstd_compress_def Let_def case_prod_unfold len_def)
  ultimately show ?thesis by simp
qed

theorem compress_len_within_two_pages_witness:
  "zstd_respects_capacity stored_zstd
   \<and> zcomp_zstd_compress stored_zstd quad [1, 2, 3, 4, 5, 6, 7, 8]
        [0, 0, 0, 0, 0, 0, 0, 0, 0, 0, 0, 0, 0, 0, 0, 0] 0 1 active
       = (0, [1, 1, 2, 3, 4, 5, 6, 7, 8, 0, 0, 0, 0, 0, 0, 0], 9, active)
   \<and> (9::nat) \<le> 2 * PAGE_SIZE quad"
proof -
  have run: "zcomp_zstd_compress stored_zstd quad [1, 2, 3, 4, 5, 6, 7, 8]
        [0, 0, 0, 0, 0, 0, 0, 0, 0, 0, 0, 0, 0, 0, 0, 0] 0 1 active
       = (0, [1, 1, 2, 3, 4, 5, 6, 7, 8, 0, 0, 0, 0, 0, 0, 0], 9, active)"
    by (simp add: zcomp_zstd_compress_def zstd_params_def active_fields)
       (simp add: conf_defs stored_defs)
  then have "fst (zcomp_zstd_compress stored_zstd quad [1, 2, 3, 4, 5, 6, 7, 8]
      [0, 0, 0, 0, 0, 0, 0, 0, 0, 0, 0, 0, 0, 0, 0, 0] 0 1 active) = 0"
    by simp
  from compress_len_within_two_pages [OF stored_respects_capacity this] run
  show ?thesis using stored_respects_capacity by simp
qed

subsection \<open>Round trip\<close>

text \<open>
  C3. For a lossless codec: after a successful \<open>zcomp_zstd_create\<close>, if
  \<open>zcomp_zstd_compress\<close> of a one-page input \<open>x\<close> returns zero, then
  \<open>zcomp_zstd_decompress\<close>, run on any possible CPU on the buffer and the length that
  compress left, returns zero and leaves exactly \<open>x\<close> in the caller's page.
\<close>

theorem compress_decompress_round_trip:
  assumes lossless: "zstd_lossless z"
    and created: "zcomp_zstd_create z k s0 = (ctx, s)" "ctx \<noteq> NULL"
    and page: "length x = PAGE_SIZE k"
    and cpu: "cpu \<in> set (possible_cpus k)"
    and compressed: "zcomp_zstd_compress z k x dst dst_len ctx s = (0, dst', len, s')"
  shows "fst (zcomp_zstd_decompress z k cpu dst' len page_out s') = 0
       \<and> take (PAGE_SIZE k) (fst (snd (zcomp_zstd_decompress z k cpu dst' len page_out s'))) = x"
proof -
  let ?hc = "cctx (ctx_mem s ctx)" and ?hd = "dctx (percpu_mem s (percpu_dctx s) cpu)"
  let ?c = "ZSTD_compressCCtx z ?hc dst (2 * PAGE_SIZE k) x (PAGE_SIZE k) (zstd_params z k)"
  have hc: "?hc \<noteq> NULL" and hd: "?hd \<noteq> NULL"
    using zcomp_zstd_create_success [OF created] cpu by simp_all
  have noerr: "ZSTD_isError z (fst ?c) = 0"
    using compressed
    by (simp add: zcomp_zstd_compress_def Let_def case_prod_unfold signed_eq_0_iff
        split: if_splits)
  then have out: "dst' = snd ?c" "len = fst ?c" "s' = s"
    using compressed by (auto simp: zcomp_zstd_compress_def Let_def case_prod_unfold)
  let ?d = "ZSTD_decompressDCtx z ?hd page_out (PAGE_SIZE k) (snd ?c) (fst ?c)"
  have "ZSTD_isError z (fst ?d) = 0" "take (PAGE_SIZE k) (snd ?d) = x"
    using lossless [unfolded zstd_lossless_def, rule_format,
        of ?hc ?hd "PAGE_SIZE k" x "PAGE_SIZE k" dst "2 * PAGE_SIZE k" "zstd_params z k" page_out]
      hc hd page noerr
    by (auto simp: case_prod_unfold Let_def)
  then show ?thesis
    using out by (simp add: zcomp_zstd_decompress_def Let_def case_prod_unfold)
qed

theorem compress_decompress_round_trip_witness:
  "zstd_lossless stored_zstd
   \<and> zcomp_zstd_create stored_zstd quad boot = (1, active)
   \<and> length [1, 2, 3, 4, 5, 6, 7, 8 :: byte] = PAGE_SIZE quad
   \<and> 2 \<in> set (possible_cpus quad)
   \<and> zcomp_zstd_compress stored_zstd quad [1, 2, 3, 4, 5, 6, 7, 8]
        [0, 0, 0, 0, 0, 0, 0, 0, 0, 0, 0, 0, 0, 0, 0, 0] 0 1 active
       = (0, [1, 1, 2, 3, 4, 5, 6, 7, 8, 0, 0, 0, 0, 0, 0, 0], 9, active)
   \<and> fst (zcomp_zstd_decompress stored_zstd quad 2
        [1, 1, 2, 3, 4, 5, 6, 7, 8, 0, 0, 0, 0, 0, 0, 0] 9 [0, 0, 0, 0, 0, 0, 0, 0] active) = 0
   \<and> take (PAGE_SIZE quad) (fst (snd (zcomp_zstd_decompress stored_zstd quad 2
        [1, 1, 2, 3, 4, 5, 6, 7, 8, 0, 0, 0, 0, 0, 0, 0] 9 [0, 0, 0, 0, 0, 0, 0, 0] active)))
       = [1, 2, 3, 4, 5, 6, 7, 8]"
proof -
  have created: "zcomp_zstd_create stored_zstd quad boot = (1, active)"
    using active_fields(1) by (simp add: active_def prod_eq_iff)
  have page: "length [1, 2, 3, 4, 5, 6, 7, 8 :: byte] = PAGE_SIZE quad"
    by (simp add: quad_def)
  have cpu: "2 \<in> set (possible_cpus quad)"
    by (simp add: quad_def)
  have compressed: "zcomp_zstd_compress stored_zstd quad [1, 2, 3, 4, 5, 6, 7, 8]
        [0, 0, 0, 0, 0, 0, 0, 0, 0, 0, 0, 0, 0, 0, 0, 0] 0 1 active
       = (0, [1, 1, 2, 3, 4, 5, 6, 7, 8, 0, 0, 0, 0, 0, 0, 0], 9, active)"
    by (simp add: zcomp_zstd_compress_def zstd_params_def active_fields)
       (simp add: conf_defs stored_defs)
  have one: "(1::nat) \<noteq> NULL" by simp
  from compress_decompress_round_trip [OF stored_lossless created one page cpu compressed,
      of "[0, 0, 0, 0, 0, 0, 0, 0]"]
  show ?thesis using stored_lossless created page cpu compressed by simp
qed

end
